theory Spec2Isabelle
  imports Main
begin

section \<open>Data model of the compatibility resolver\<close>

text \<open>
  The attributes of \<^verbatim>\<open>Task\<close> and \<^verbatim>\<open>Dataset\<close> that
  \<^verbatim>\<open>runner/_common.py\<close> reads. The classes themselves live in the models
  package; only the fields used here are kept.
\<close>

record Task =
  name :: string
  input_type :: string

record Dataset =
  name :: string
  type :: string
  read_only :: bool
  paths :: "string list"

text \<open>
  The exceptions raised in \<^verbatim>\<open>runner/_common.py\<close>. \<open>ValueError None\<close> is the bare
  \<^verbatim>\<open>raise ValueError\<close>, \<open>ValueError (Some m)\<close> is \<^verbatim>\<open>raise ValueError(m)\<close>.
  \<open>OSError\<close> is what opening the log file raises when it fails.
\<close>

datatype error =
    TypeError string
  | ValueError "string option"
  | NotImplementedError
  | OSError

text \<open>
  The value bound to \<^verbatim>\<open>output_path\<close>: one branch binds a string, the other a list
  of strings.
\<close>

datatype output_path = Str string | StrList "string list"

section \<open>The compatibility resolver\<close>

text \<open>
  \<^verbatim>\<open>auto_output_dataset\<close>. The arguments \<^verbatim>\<open>project\<close> and \<^verbatim>\<open>workflow\<close> are never
  read and are left out. The result of awaiting the coroutine is modelled.
\<close>

definition auto_output_dataset :: "Dataset \<Rightarrow> bool \<Rightarrow> error + Dataset" where
  "auto_output_dataset input_dataset overwrite_input =
     (if overwrite_input \<and> \<not> read_only input_dataset then
        (let input_paths = paths input_dataset in
         if length input_paths \<noteq> 1 then Inl (ValueError None)
         else Inr input_dataset)
      else Inl NotImplementedError)"

text \<open>The f-string of the \<^verbatim>\<open>TypeError\<close>.\<close>

definition incompatible_types_msg :: "Task \<Rightarrow> Dataset \<Rightarrow> string" where
  "incompatible_types_msg workflow input_dataset =
     ''Incompatible types `'' @ input_type workflow @ ''` of workflow `'' @
     Task.name workflow @ ''` and `'' @ type input_dataset @ ''` of dataset `'' @
     Dataset.name input_dataset @ ''`''"

definition read_only_msg :: string where
  "read_only_msg = ''Input dataset is read-only''"

definition multiple_input_paths_msg :: string where
  "multiple_input_paths_msg =
     ''Cannot determine output path: multiple input paths to overwrite''"

definition multiple_paths_msg :: string where
  "multiple_paths_msg = ''Cannot determine output path: Multiple paths in dataset.''"

text \<open>
  \<^verbatim>\<open>validate_workflow_compatibility\<close>. A dataset object is always truthy, so
  \<^verbatim>\<open>not output_dataset\<close> holds exactly when the argument is \<^verbatim>\<open>None\<close>.
\<close>

definition validate_workflow_compatibility ::
  "Dataset \<Rightarrow> Task \<Rightarrow> Dataset option \<Rightarrow> error + output_path" where
  "validate_workflow_compatibility input_dataset workflow output_dataset =
     (if input_type workflow \<noteq> ''Any'' \<and> input_type workflow \<noteq> type input_dataset then
        Inl (TypeError (incompatible_types_msg workflow input_dataset))
      else
        (case output_dataset of
           None \<Rightarrow>
             (if read_only input_dataset then Inl (ValueError (Some read_only_msg))
              else
                (let input_paths = paths input_dataset in
                 if length input_paths \<noteq> 1 then
                   Inl (ValueError (Some multiple_input_paths_msg))
                 else Inr (Str (input_paths ! 0))))
         | Some od \<Rightarrow>
             (let output_path = paths od in
              if length output_path \<noteq> 1 then Inl (ValueError (Some multiple_paths_msg))
              else Inr (StrList output_path))))"

section \<open>The logging library, as far as the job logger uses it\<close>

text \<open>
  Loggers and handlers are mutable objects that several names may share, so they live in
  a store. A logger is referred to by the name under which the library registers it
  (one object per name); a handler by its address in \<open>handler_heap\<close>.
\<close>

type_synonym ref = nat

type_synonym formatter = string

datatype handler_class = FileHandler | OtherHandler

text \<open>
  \<open>hclass\<close> is what \<^verbatim>\<open>isinstance(handle, logging.FileHandler)\<close> tests; \<open>stream\<close> says whether
  the handler holds an open stream (\<^verbatim>\<open>stream is not None\<close>); \<open>closed\<close> is the flag that
  \<^verbatim>\<open>Handler.close\<close> sets.
\<close>

record handler =
  hclass :: handler_class
  baseFilename :: string
  stream :: bool
  closed :: bool
  formatter :: "formatter option"

text \<open>
  \<open>level\<close> is the threshold the logger compares records with. \<open>setLevel\<close> is the instance
  attribute of that name: \<open>None\<close> while the instance has none and the method of the class
  is what the name denotes.
\<close>

record logger =
  level :: int
  setLevel :: "int option"
  handlers :: "ref list"

text \<open>
  \<open>files\<close> maps the existing files to their content; \<open>fs_denied\<close> holds the paths at which
  opening for append fails.
\<close>

record logging_state =
  loggerDict :: "string \<rightharpoonup> logger"
  handler_heap :: "ref \<rightharpoonup> handler"
  next_ref :: ref
  files :: "string \<rightharpoonup> string"
  fs_denied :: "string set"

definition NOTSET :: int where "NOTSET = 0"
definition INFO :: int where "INFO = 20"
definition WARNING :: int where "WARNING = 30"

text \<open>The empty name and the name of the root logger both denote the root logger.\<close>

definition logger_ref :: "string \<Rightarrow> string" where
  "logger_ref logger_name = (if logger_name = [] \<or> logger_name = ''root'' then ''root'' else logger_name)"

definition new_logger :: "string \<Rightarrow> logger" where
  "new_logger r =
     \<lparr>level = (if r = ''root'' then WARNING else NOTSET), setLevel = None, handlers = []\<rparr>"

text \<open>
  \<^verbatim>\<open>logging.getLogger\<close>: the logger registered under the name, created with no handler
  on first use.
\<close>

definition getLogger :: "string \<Rightarrow> logging_state \<Rightarrow> string \<times> logging_state" where
  "getLogger logger_name s =
     (let r = logger_ref logger_name in
      case loggerDict s r of
        Some _ \<Rightarrow> (r, s)
      | None \<Rightarrow> (r, s\<lparr>loggerDict := (loggerDict s)(r \<mapsto> new_logger r)\<rparr>))"

text \<open>
  \<^verbatim>\<open>logging.FileHandler(path, mode="a")\<close>: opens the file at once, creating it when it
  does not exist and keeping its content when it does.
\<close>

definition FileHandler_init :: "string \<Rightarrow> logging_state \<Rightarrow> error + ref \<times> logging_state" where
  "FileHandler_init path s =
     (if path \<in> fs_denied s then Inl OSError
      else
        (let r = next_ref s;
             h = \<lparr>hclass = FileHandler, baseFilename = path, stream = True,
                  closed = False, formatter = None\<rparr>
         in Inr (r, s\<lparr>handler_heap := (handler_heap s)(r \<mapsto> h),
                       next_ref := Suc r,
                       files := (case files s path of
                                   None \<Rightarrow> (files s)(path \<mapsto> [])
                                 | Some _ \<Rightarrow> files s)\<rparr>)))"

definition setFormatter :: "ref \<Rightarrow> formatter option \<Rightarrow> logging_state \<Rightarrow> logging_state" where
  "setFormatter r fmt s =
     (case handler_heap s r of
        None \<Rightarrow> s
      | Some h \<Rightarrow> s\<lparr>handler_heap := (handler_heap s)(r \<mapsto> h\<lparr>formatter := fmt\<rparr>)\<rparr>)"

text \<open>\<^verbatim>\<open>Logger.addHandler\<close>: appends the handler unless the logger already has it.\<close>

definition addHandler :: "string \<Rightarrow> ref \<Rightarrow> logging_state \<Rightarrow> logging_state" where
  "addHandler lg r s =
     (case loggerDict s lg of
        None \<Rightarrow> s
      | Some l \<Rightarrow>
          if r \<in> set (handlers l) then s
          else s\<lparr>loggerDict := (loggerDict s)(lg \<mapsto> l\<lparr>handlers := handlers l @ [r]\<rparr>)\<rparr>)"

text \<open>
  \<^verbatim>\<open>FileHandler.close\<close>: flushes and closes the stream if there is one, drops it, and
  sets the closed flag.
\<close>

definition FileHandler_close :: "handler \<Rightarrow> handler" where
  "FileHandler_close h = h\<lparr>stream := False, closed := True\<rparr>"

section \<open>The job logger\<close>

text \<open>
  The statement \<^verbatim>\<open>logger.setLevel = level\<close>: an assignment to the attribute \<^verbatim>\<open>setLevel\<close>
  of the instance.
\<close>

definition assign_setLevel :: "string \<Rightarrow> int \<Rightarrow> logging_state \<Rightarrow> logging_state" where
  "assign_setLevel lg lv s =
     (case loggerDict s lg of
        None \<Rightarrow> s
      | Some l \<Rightarrow> s\<lparr>loggerDict := (loggerDict s)(lg \<mapsto> l\<lparr>setLevel := Some lv\<rparr>)\<rparr>)"

text \<open>
  \<^verbatim>\<open>set_job_logger\<close>. The result is the reference of the logger, or the error of the
  failed open; the state is returned in both cases, since the logger has been looked up
  and assigned to before the file is opened.
\<close>

definition set_job_logger ::
  "string \<Rightarrow> string \<Rightarrow> int \<Rightarrow> formatter option \<Rightarrow> logging_state
     \<Rightarrow> (error + string) \<times> logging_state" where
  "set_job_logger logger_name log_file_path lv fmt s0 =
     (let (logger, s1) = getLogger logger_name s0;
          s2 = assign_setLevel logger lv s1
      in case FileHandler_init log_file_path s2 of
           Inl e \<Rightarrow> (Inl e, s2)
         | Inr (file_handler, s3) \<Rightarrow>
             (let s4 = setFormatter file_handler fmt s3;
                  s5 = addHandler logger file_handler s4
              in (Inr logger, s5)))"

text \<open>
  The loop of \<^verbatim>\<open>close_job_logger\<close> over \<^verbatim>\<open>logger.handlers\<close>: every handler that is a
  \<^verbatim>\<open>FileHandler\<close> is closed, the others are skipped.
\<close>

fun close_handles :: "ref list \<Rightarrow> (ref \<rightharpoonup> handler) \<Rightarrow> (ref \<rightharpoonup> handler)" where
  "close_handles [] hp = hp"
| "close_handles (r # rs) hp =
     close_handles rs
       (case hp r of
          None \<Rightarrow> hp
        | Some handle \<Rightarrow>
            if hclass handle = FileHandler then hp(r \<mapsto> FileHandler_close handle) else hp)"

definition close_job_logger :: "string \<Rightarrow> logging_state \<Rightarrow> logging_state" where
  "close_job_logger logger s =
     (case loggerDict s logger of
        None \<Rightarrow> s
      | Some l \<Rightarrow> s\<lparr>handler_heap := close_handles (handlers l) (handler_heap s)\<rparr>)"

text \<open>The state of a process that has not touched the logging library yet.\<close>

definition initial_state :: logging_state where
  "initial_state =
     \<lparr>loggerDict = [''root'' \<mapsto> new_logger ''root''], handler_heap = Map.empty,
      next_ref = 0, files = Map.empty, fs_denied = {}\<rparr>"

text \<open>
  Every handler address held by a logger has been allocated. The initial state satisfies
  this and both operations of the job logger keep it.
\<close>

definition handlers_allocated :: "logging_state \<Rightarrow> bool" where
  "handlers_allocated s =
     (\<forall>lg l. loggerDict s lg = Some l \<longrightarrow> (\<forall>r\<in>set (handlers l). r < next_ref s))"

section \<open>Example inputs\<close>

definition wf_any :: Task where
  "wf_any = \<lparr>Task.name = ''workflow'', input_type = ''Any''\<rparr>"

definition wf_zarr :: Task where
  "wf_zarr = \<lparr>Task.name = ''workflow'', input_type = ''zarr''\<rparr>"

definition ds_zarr :: Dataset where
  "ds_zarr =
     \<lparr>Dataset.name = ''dataset'', type = ''zarr'', read_only = False, paths = [''/data/a'']\<rparr>"

definition ds_png :: Dataset where
  "ds_png =
     \<lparr>Dataset.name = ''dataset'', type = ''png'', read_only = False, paths = [''/data/a'']\<rparr>"

definition ds_png_ro :: Dataset where
  "ds_png_ro =
     \<lparr>Dataset.name = ''dataset'', type = ''png'', read_only = True, paths = [''/data/a'']\<rparr>"

definition ds_zarr_ro_many :: Dataset where
  "ds_zarr_ro_many =
     \<lparr>Dataset.name = ''dataset'', type = ''zarr'', read_only = True,
      paths = [''/data/a'', ''/data/b'']\<rparr>"

definition ds_out1 :: Dataset where
  "ds_out1 =
     \<lparr>Dataset.name = ''out'', type = ''zarr'', read_only = False, paths = [''/out/a'']\<rparr>"

definition ds_out2 :: Dataset where
  "ds_out2 =
     \<lparr>Dataset.name = ''out'', type = ''zarr'', read_only = False,
      paths = [''/out/a'', ''/out/b'']\<rparr>"

text \<open>
  A state in which the logger \<open>job-42\<close> has a handler that is no file handler (address 0)
  and an open file handler (address 1).
\<close>

definition example_state :: logging_state where
  "example_state =
     \<lparr>loggerDict = [''root'' \<mapsto> new_logger ''root'',
                    ''job-42'' \<mapsto> \<lparr>level = NOTSET, setLevel = Some INFO, handlers = [0, 1]\<rparr>],
      handler_heap =
        [0 \<mapsto> \<lparr>hclass = OtherHandler, baseFilename = [], stream = True, closed = False,
                formatter = None\<rparr>,
         1 \<mapsto> \<lparr>hclass = FileHandler, baseFilename = ''/tmp/job-42.log'', stream = True,
                closed = False, formatter = None\<rparr>],
      next_ref = 2, files = [''/tmp/job-42.log'' \<mapsto> []], fs_denied = {}\<rparr>"

section \<open>Properties of the compatibility resolver\<close>

text \<open>
  C4. When the workflow's input type is not \<open>Any\<close> and differs from the type of the input
  dataset, \<open>validate_workflow_compatibility\<close> raises the \<open>TypeError\<close> whatever the read-only
  flag, the paths and the output dataset are (\<open>od\<close> is arbitrary, \<open>None\<close> included). The
  message holds the declared input type, the name of the workflow, the type of the dataset
  and the name of the dataset.
\<close>

theorem type_mismatch_first:
  assumes "input_type w \<noteq> ''Any''" and "input_type w \<noteq> type d"
  shows "validate_workflow_compatibility d w od =
         Inl (TypeError (''Incompatible types `'' @ input_type w @ ''` of workflow `'' @
                Task.name w @ ''` and `'' @ type d @ ''` of dataset `'' @
                Dataset.name d @ ''`''))"
  using assms by (simp add: validate_workflow_compatibility_def incompatible_types_msg_def)

theorem type_mismatch_first_witness:
  "validate_workflow_compatibility ds_png_ro wf_zarr (Some ds_out2) =
     Inl (TypeError
       ''Incompatible types `zarr` of workflow `workflow` and `png` of dataset `dataset`'')
   \<and> validate_workflow_compatibility ds_png_ro wf_zarr None =
     Inl (TypeError
       ''Incompatible types `zarr` of workflow `workflow` and `png` of dataset `dataset`'')"
  using type_mismatch_first [of wf_zarr ds_png_ro "Some ds_out2"]
    type_mismatch_first [of wf_zarr ds_png_ro None]
  by (simp add: wf_zarr_def ds_png_ro_def)

text \<open>
  C8. When the workflow's input type is \<open>Any\<close>, \<open>validate_workflow_compatibility\<close> never
  raises a \<open>TypeError\<close>, whatever the type of the input dataset is.
\<close>

theorem any_accepts_every_type:
  assumes "input_type w = ''Any''"
  shows "validate_workflow_compatibility d w od \<noteq> Inl (TypeError m)"
  using assms
  by (auto simp: validate_workflow_compatibility_def Let_def split: option.splits)

theorem any_accepts_every_type_witness:
  "validate_workflow_compatibility ds_png wf_any None \<noteq>
     Inl (TypeError (incompatible_types_msg wf_any ds_png))
   \<and> validate_workflow_compatibility ds_png wf_any None = Inr (Str ''/data/a'')"
  using any_accepts_every_type [of wf_any ds_png None "incompatible_types_msg wf_any ds_png"]
  by (simp add: wf_any_def ds_png_def validate_workflow_compatibility_def)

text \<open>
  C1. With a compatible type and an output dataset that has exactly one path \<open>p\<close>,
  \<open>validate_workflow_compatibility\<close> succeeds, and what it returns is \<open>paths\<close> of the output
  dataset, the one-element list \<open>[p]\<close>. The branch without an output dataset returns
  \<^verbatim>\<open>input_paths[0]\<close>, the string; this branch binds the list and never indexes it.
\<close>

theorem output_dataset_single_path_list:
  assumes "input_type w = ''Any'' \<or> input_type w = type d" and "paths od = [p]"
  shows "validate_workflow_compatibility d w (Some od) = Inr (StrList [p])"
  using assms by (auto simp: validate_workflow_compatibility_def)

theorem output_dataset_single_path_list_witness:
  "validate_workflow_compatibility ds_zarr wf_any (Some ds_out1) = Inr (StrList [''/out/a''])
   \<and> validate_workflow_compatibility ds_zarr wf_any (Some ds_out1) \<noteq> Inr (Str ''/out/a'')"
  using output_dataset_single_path_list [of wf_any ds_zarr ds_out1 "''/out/a''"]
  by (simp add: wf_any_def ds_zarr_def ds_out1_def)

text \<open>
  C2, as stated, fails: for a read-only input dataset with one path and
  \<open>overwrite_input = True\<close>, \<open>auto_output_dataset\<close> raises \<open>NotImplementedError\<close>, the very
  exception it raises when \<open>overwrite_input\<close> is false, and not the read-only
  \<open>ValueError\<close> of \<open>validate_workflow_compatibility\<close>.
\<close>

theorem auto_output_dataset_read_only_counterexample:
  "read_only ds_png_ro \<and> length (paths ds_png_ro) = 1
   \<and> auto_output_dataset ds_png_ro True = Inl NotImplementedError
   \<and> auto_output_dataset ds_png_ro False = Inl NotImplementedError
   \<and> auto_output_dataset ds_png_ro True \<noteq> Inl (ValueError (Some read_only_msg))"
  by (simp add: auto_output_dataset_def ds_png_ro_def)

text \<open>
  C2, amended. For every read-only input dataset with exactly one path,
  \<open>auto_output_dataset\<close> with \<open>overwrite_input = True\<close> fails with \<open>NotImplementedError\<close>, the
  same result as with \<open>overwrite_input = False\<close>.
\<close>

theorem auto_output_dataset_read_only:
  assumes "read_only d" and "length (paths d) = 1"
  shows "auto_output_dataset d True = Inl NotImplementedError
         \<and> auto_output_dataset d True = auto_output_dataset d False"
  using assms by (simp add: auto_output_dataset_def)

theorem auto_output_dataset_read_only_witness:
  "read_only ds_png_ro \<and> length (paths ds_png_ro) = 1
   \<and> auto_output_dataset ds_png_ro True = Inl NotImplementedError
   \<and> auto_output_dataset ds_png_ro True = auto_output_dataset ds_png_ro False"
proof -
  have ro: "read_only ds_png_ro" and len: "length (paths ds_png_ro) = 1"
    by (simp_all add: ds_png_ro_def)
  from auto_output_dataset_read_only [OF ro len] ro len show ?thesis
    by blast
qed

text \<open>
  C5, as stated, fails: a read-only input dataset whose type differs from the workflow's
  input type is rejected by the type check, which comes first, and the read-only
  \<open>ValueError\<close> is never reached.
\<close>

theorem read_only_no_output_counterexample:
  "read_only ds_png_ro
   \<and> validate_workflow_compatibility ds_png_ro wf_zarr None =
       Inl (TypeError (incompatible_types_msg wf_zarr ds_png_ro))
   \<and> validate_workflow_compatibility ds_png_ro wf_zarr None \<noteq>
       Inl (ValueError (Some read_only_msg))"
  by (simp add: validate_workflow_compatibility_def wf_zarr_def ds_png_ro_def)

text \<open>
  C5, amended. For every read-only input dataset whose type the workflow accepts (input
  type \<open>Any\<close> or equal to the dataset's type), and no output dataset,
  \<open>validate_workflow_compatibility\<close> fails with the read-only \<open>ValueError\<close>, whatever the
  number of paths.
\<close>

theorem read_only_no_output:
  assumes "input_type w = ''Any'' \<or> input_type w = type d" and "read_only d"
  shows "validate_workflow_compatibility d w None = Inl (ValueError (Some read_only_msg))"
  using assms by (auto simp: validate_workflow_compatibility_def)

theorem read_only_no_output_witness:
  "validate_workflow_compatibility ds_png_ro wf_any None =
     Inl (ValueError (Some ''Input dataset is read-only''))
   \<and> validate_workflow_compatibility ds_zarr_ro_many wf_zarr None =
     Inl (ValueError (Some ''Input dataset is read-only''))
   \<and> validate_workflow_compatibility (ds_png_ro\<lparr>paths := []\<rparr>) wf_any None =
     Inl (ValueError (Some ''Input dataset is read-only''))"
  using read_only_no_output [of wf_any ds_png_ro]
    read_only_no_output [of wf_zarr ds_zarr_ro_many]
    read_only_no_output [of wf_any "ds_png_ro\<lparr>paths := []\<rparr>"]
  by (simp add: wf_any_def wf_zarr_def ds_png_ro_def ds_zarr_ro_many_def read_only_msg_def)

text \<open>
  C6, as stated, fails: a writable input dataset with one path whose type differs from the
  workflow's input type is rejected by the type check, and no path is returned.
\<close>

theorem single_input_path_counterexample:
  "\<not> read_only ds_png \<and> paths ds_png = [''/data/a'']
   \<and> validate_workflow_compatibility ds_png wf_zarr None =
       Inl (TypeError (incompatible_types_msg wf_zarr ds_png))
   \<and> validate_workflow_compatibility ds_png wf_zarr None \<noteq> Inr (Str ''/data/a'')"
  by (simp add: validate_workflow_compatibility_def wf_zarr_def ds_png_def)

text \<open>
  C6, amended. For every input dataset that is not read-only, has exactly one path \<open>p\<close>
  and a type the workflow accepts, and no output dataset,
  \<open>validate_workflow_compatibility\<close> succeeds and returns the string \<open>p\<close>.
\<close>

theorem single_input_path:
  assumes "input_type w = ''Any'' \<or> input_type w = type d"
    and "\<not> read_only d" and "paths d = [p]"
  shows "validate_workflow_compatibility d w None = Inr (Str p)"
  using assms by (auto simp: validate_workflow_compatibility_def)

theorem single_input_path_witness:
  "validate_workflow_compatibility ds_zarr wf_any None = Inr (Str ''/data/a'')
   \<and> validate_workflow_compatibility ds_zarr wf_zarr None = Inr (Str ''/data/a'')"
  using single_input_path [of wf_any ds_zarr "''/data/a''"]
    single_input_path [of wf_zarr ds_zarr "''/data/a''"]
  by (simp add: wf_any_def wf_zarr_def ds_zarr_def)

text \<open>
  C7, as stated, fails: with an output dataset of two paths and an input dataset whose
  type differs from the workflow's input type, the failure is the \<open>TypeError\<close> of the type
  check, not the \<open>ValueError\<close> about the paths.
\<close>

theorem output_dataset_ambiguous_counterexample:
  "length (paths ds_out2) \<noteq> 1
   \<and> validate_workflow_compatibility ds_png wf_zarr (Some ds_out2) =
       Inl (TypeError (incompatible_types_msg wf_zarr ds_png))
   \<and> validate_workflow_compatibility ds_png wf_zarr (Some ds_out2) \<noteq>
       Inl (ValueError (Some multiple_paths_msg))"
  by (simp add: validate_workflow_compatibility_def wf_zarr_def ds_png_def ds_out2_def)

text \<open>
  C7, amended. For every output dataset whose number of paths is not 1, and every input
  dataset whose type the workflow accepts, \<open>validate_workflow_compatibility\<close> fails with
  the \<open>ValueError\<close> about multiple paths, whatever the read-only flag and the paths of the
  input dataset are.
\<close>

theorem output_dataset_ambiguous:
  assumes "input_type w = ''Any'' \<or> input_type w = type d"
    and "length (paths od) \<noteq> 1"
  shows "validate_workflow_compatibility d w (Some od) =
         Inl (ValueError (Some multiple_paths_msg))"
  using assms by (auto simp: validate_workflow_compatibility_def)

theorem output_dataset_ambiguous_witness:
  "validate_workflow_compatibility ds_zarr wf_any (Some ds_out2) =
     Inl (ValueError (Some ''Cannot determine output path: Multiple paths in dataset.''))
   \<and> validate_workflow_compatibility ds_zarr_ro_many wf_zarr (Some (ds_out2\<lparr>paths := []\<rparr>)) =
     Inl (ValueError (Some ''Cannot determine output path: Multiple paths in dataset.''))"
  using output_dataset_ambiguous [of wf_any ds_zarr ds_out2]
    output_dataset_ambiguous [of wf_zarr ds_zarr_ro_many "ds_out2\<lparr>paths := []\<rparr>"]
  by (simp add: wf_any_def wf_zarr_def ds_zarr_def ds_zarr_ro_many_def ds_out2_def
        multiple_paths_msg_def)

section \<open>Properties of the job logger\<close>

lemma FileHandler_close_idem: "FileHandler_close (FileHandler_close h) = FileHandler_close h"
  by (simp add: FileHandler_close_def)

lemma hclass_FileHandler_close: "hclass (FileHandler_close h) = hclass h"
  by (simp add: FileHandler_close_def)

lemma close_handles_apply:
  "close_handles rs hp r =
     (if r \<in> set rs then
        (case hp r of
           None \<Rightarrow> None
         | Some h \<Rightarrow> Some (if hclass h = FileHandler then FileHandler_close h else h))
      else hp r)"
proof (induction rs arbitrary: hp)
  case Nil
  then show ?case by simp
next
  case (Cons a rs)
  show ?case
    by (simp add: Cons.IH FileHandler_close_idem hclass_FileHandler_close split: option.splits)
qed

lemma close_handles_idem: "close_handles rs (close_handles rs hp) = close_handles rs hp"
  by (rule ext)
     (simp add: close_handles_apply FileHandler_close_idem hclass_FileHandler_close
           split: option.splits)

lemma loggerDict_close_job_logger: "loggerDict (close_job_logger lg s) = loggerDict s"
  by (simp add: close_job_logger_def split: option.splits)

lemma next_ref_close_job_logger: "next_ref (close_job_logger lg s) = next_ref s"
  by (simp add: close_job_logger_def split: option.splits)

lemma fs_denied_close_job_logger: "fs_denied (close_job_logger lg s) = fs_denied s"
  by (simp add: close_job_logger_def split: option.splits)

lemma handler_heap_close_job_logger:
  "loggerDict s lg = Some l \<Longrightarrow>
   handler_heap (close_job_logger lg s) = close_handles (handlers l) (handler_heap s)"
  by (simp add: close_job_logger_def)

text \<open>
  What a successful \<open>set_job_logger\<close> does to a registered logger whose handlers are
  allocated.
\<close>

lemma set_job_logger_registered:
  assumes "loggerDict s (logger_ref nm) = Some l"
    and "\<forall>r\<in>set (handlers l). r < next_ref s"
    and "path \<notin> fs_denied s"
  shows "fst (set_job_logger nm path lv fmt s) = Inr (logger_ref nm)"
    and "loggerDict (snd (set_job_logger nm path lv fmt s)) (logger_ref nm) =
           Some (l\<lparr>setLevel := Some lv, handlers := handlers l @ [next_ref s]\<rparr>)"
    and "handler_heap (snd (set_job_logger nm path lv fmt s)) =
           (handler_heap s)(next_ref s \<mapsto>
              \<lparr>hclass = FileHandler, baseFilename = path, stream = True, closed = False,
               formatter = fmt\<rparr>)"
  using assms
  by (auto simp: set_job_logger_def getLogger_def assign_setLevel_def FileHandler_init_def
        setFormatter_def addHandler_def Let_def)

lemma handlers_allocated_initial: "handlers_allocated initial_state"
  by (simp add: handlers_allocated_def initial_state_def new_logger_def)

lemma handlers_allocated_close_job_logger:
  "handlers_allocated s \<Longrightarrow> handlers_allocated (close_job_logger lg s)"
  by (simp add: handlers_allocated_def loggerDict_close_job_logger next_ref_close_job_logger)

lemma handlers_allocated_getLogger:
  "handlers_allocated s \<Longrightarrow> handlers_allocated (snd (getLogger nm s))"
  by (auto simp: handlers_allocated_def getLogger_def Let_def new_logger_def
        split: option.splits if_splits)

lemma handlers_allocated_assign_setLevel:
  "handlers_allocated s \<Longrightarrow> handlers_allocated (assign_setLevel lg lv s)"
  by (auto simp: handlers_allocated_def assign_setLevel_def split: option.splits if_splits)

lemma handlers_allocated_setFormatter:
  "handlers_allocated s \<Longrightarrow> handlers_allocated (setFormatter r fmt s)"
  by (auto simp: handlers_allocated_def setFormatter_def split: option.splits)

lemma handlers_allocated_FileHandler_init:
  assumes "handlers_allocated s" and "FileHandler_init path s = Inr (r, s')"
  shows "handlers_allocated s' \<and> r < next_ref s'"
proof -
  from assms(2) have n: "next_ref s' = Suc (next_ref s)" and l: "loggerDict s' = loggerDict s"
    and r: "r = next_ref s"
    by (auto simp: FileHandler_init_def Let_def split: if_splits)
  have "r' < Suc (next_ref s)" if "loggerDict s lg = Some l" "r' \<in> set (handlers l)" for lg l r'
    using assms(1) that by (auto simp: handlers_allocated_def less_Suc_eq)
  then show ?thesis
    by (auto simp: handlers_allocated_def n l r)
qed

lemma handlers_allocated_addHandler:
  assumes "handlers_allocated s" and "r < next_ref s"
  shows "handlers_allocated (addHandler lg r s)"
  using assms
  by (auto simp: handlers_allocated_def addHandler_def split: option.splits if_splits)

lemma handlers_allocated_set_job_logger:
  assumes "handlers_allocated s"
  shows "handlers_allocated (snd (set_job_logger nm path lv fmt s))"
proof -
  obtain lg s1 where g: "getLogger nm s = (lg, s1)" by (cases "getLogger nm s")
  have a1: "handlers_allocated s1"
    using handlers_allocated_getLogger [OF assms, of nm] g by simp
  let ?s2 = "assign_setLevel lg lv s1"
  have a2: "handlers_allocated ?s2"
    by (rule handlers_allocated_assign_setLevel [OF a1])
  show ?thesis
  proof (cases "FileHandler_init path ?s2")
    case (Inl e)
    then show ?thesis
      using a2 by (simp add: set_job_logger_def g)
  next
    case (Inr p)
    obtain r s3 where p: "p = (r, s3)" by (cases p)
    have a3: "handlers_allocated s3" and lt: "r < next_ref s3"
      using handlers_allocated_FileHandler_init [OF a2 Inr [unfolded p]] by simp_all
    have a4: "handlers_allocated (setFormatter r fmt s3)"
      by (rule handlers_allocated_setFormatter [OF a3])
    have n4: "next_ref (setFormatter r fmt s3) = next_ref s3"
      by (simp add: setFormatter_def split: option.splits)
    have "handlers_allocated (addHandler lg r (setFormatter r fmt s3))"
      by (rule handlers_allocated_addHandler [OF a4]) (simp add: n4 lt)
    then show ?thesis
      by (simp add: set_job_logger_def g Inr p)
  qed
qed

text \<open>
  C9. \<open>close_job_logger\<close> is idempotent: a second call on the same logger leaves the whole
  state (every logger, every handler, every file) as the first call left it. In
  particular the second call changes no other logger. The model of \<open>close_job_logger\<close>
  has no error result: closing a file handler whose stream is gone only sets the flag
  again.
\<close>

theorem close_job_logger_idempotent:
  "close_job_logger lg (close_job_logger lg s) = close_job_logger lg s"
  by (simp add: close_job_logger_def close_handles_idem split: option.splits)

text \<open>
  C10. \<open>close_job_logger\<close> detaches no handler: the registry of loggers, and with it the
  handler list of every logger, is the same before and after the call, for any logger
  \<open>lg'\<close> it is called on. The file handlers of the logger are closed in place, at their
  addresses. A following \<open>set_job_logger\<close> on the same name, with a file that can be
  opened, appends one new handler at a fresh address after all the old ones, which are
  still attached and still closed. The hypothesis on the addresses says that the handlers
  of the logger have been allocated, which \<open>handlers_allocated\<close> gives for every logger.
\<close>

theorem close_job_logger_keeps_handlers:
  assumes "loggerDict s (logger_ref nm) = Some l"
    and "\<forall>r\<in>set (handlers l). r < next_ref s"
    and "path \<notin> fs_denied s"
  shows "loggerDict (close_job_logger lg' s) = loggerDict s
    \<and> (\<forall>r\<in>set (handlers l). \<forall>h. handler_heap s r = Some h \<and> hclass h = FileHandler \<longrightarrow>
          handler_heap (close_job_logger (logger_ref nm) s) r = Some (FileHandler_close h))
    \<and> fst (set_job_logger nm path lv fmt (close_job_logger (logger_ref nm) s)) =
          Inr (logger_ref nm)
    \<and> map_option handlers
          (loggerDict (snd (set_job_logger nm path lv fmt (close_job_logger (logger_ref nm) s)))
             (logger_ref nm)) = Some (handlers l @ [next_ref s])
    \<and> next_ref s \<notin> set (handlers l)
    \<and> (\<forall>r\<in>set (handlers l). \<forall>h. handler_heap s r = Some h \<and> hclass h = FileHandler \<longrightarrow>
          handler_heap (snd (set_job_logger nm path lv fmt (close_job_logger (logger_ref nm) s))) r
            = Some (FileHandler_close h))"
proof -
  let ?c = "close_job_logger (logger_ref nm) s"
  have c1: "loggerDict ?c (logger_ref nm) = Some l"
    using assms(1) by (simp add: loggerDict_close_job_logger)
  have c2: "\<forall>r\<in>set (handlers l). r < next_ref ?c"
    using assms(2) by (simp add: next_ref_close_job_logger)
  have c3: "path \<notin> fs_denied ?c"
    using assms(3) by (simp add: fs_denied_close_job_logger)
  have closed_in_place:
    "handler_heap ?c r = Some (FileHandler_close h)"
    if "r \<in> set (handlers l)" "handler_heap s r = Some h" "hclass h = FileHandler" for r h
    using that by (simp add: handler_heap_close_job_logger [OF assms(1)] close_handles_apply)
  have fresh: "next_ref s \<notin> set (handlers l)"
    using assms(2) by auto
  have after: "handler_heap (snd (set_job_logger nm path lv fmt ?c)) r = Some (FileHandler_close h)"
    if "r \<in> set (handlers l)" "handler_heap s r = Some h" "hclass h = FileHandler" for r h
  proof -
    have "r \<noteq> next_ref s" using that(1) fresh by auto
    then show ?thesis
      using closed_in_place [OF that]
      by (simp add: set_job_logger_registered(3) [OF c1 c2 c3] next_ref_close_job_logger)
  qed
  show ?thesis
    using closed_in_place after fresh
    by (simp add: loggerDict_close_job_logger set_job_logger_registered(1) [OF c1 c2 c3]
          set_job_logger_registered(2) [OF c1 c2 c3] next_ref_close_job_logger)
qed

theorem close_job_logger_keeps_handlers_witness:
  "map_option handlers (loggerDict (close_job_logger ''job-42'' example_state) ''job-42'') =
     Some [0, 1]
   \<and> handler_heap (close_job_logger ''job-42'' example_state) 1 =
     Some \<lparr>hclass = FileHandler, baseFilename = ''/tmp/job-42.log'', stream = False,
           closed = True, formatter = None\<rparr>
   \<and> map_option handlers
       (loggerDict
          (snd (set_job_logger ''job-42'' ''/tmp/job-42.log'' INFO None
                  (close_job_logger ''job-42'' example_state)))
          ''job-42'') = Some [0, 1, 2]
   \<and> handler_heap
       (snd (set_job_logger ''job-42'' ''/tmp/job-42.log'' INFO None
               (close_job_logger ''job-42'' example_state))) 1 =
     Some \<lparr>hclass = FileHandler, baseFilename = ''/tmp/job-42.log'', stream = False,
           closed = True, formatter = None\<rparr>"
proof -
  let ?l = "\<lparr>level = NOTSET, setLevel = Some INFO, handlers = [0, 1]\<rparr>"
  have h1: "loggerDict example_state (logger_ref ''job-42'') = Some ?l"
    by (simp add: example_state_def logger_ref_def)
  have h2: "\<forall>r\<in>set (handlers ?l). r < next_ref example_state"
    by (simp add: example_state_def)
  have h3: "''/tmp/job-42.log'' \<notin> fs_denied example_state"
    by (simp add: example_state_def)
  have r: "logger_ref ''job-42'' = ''job-42''"
    by (simp add: logger_ref_def)
  have n: "next_ref example_state = 2"
    by (simp add: example_state_def)
  have hp: "handler_heap example_state (Suc 0) =
              Some \<lparr>hclass = FileHandler, baseFilename = ''/tmp/job-42.log'', stream = True,
                    closed = False, formatter = None\<rparr>"
    by (simp add: example_state_def)
  from close_job_logger_keeps_handlers [OF h1 h2 h3, of "''job-42''" INFO None]
  show ?thesis
    by (simp add: r n hp h1 [unfolded r] FileHandler_close_def)
qed

text \<open>
  C3. The level of the logger that \<open>set_job_logger\<close> returns is the level the logger had
  before the call (that of a new logger when the call created it), whatever the argument
  \<open>lv\<close> is: the assignment stores \<open>lv\<close> in the attribute \<open>setLevel\<close> and the threshold is
  not touched. On a new logger with \<open>lv = INFO\<close> the threshold stays at \<open>NOTSET\<close>.
\<close>

theorem set_job_logger_level:
  assumes "set_job_logger nm path lv fmt s = (Inr lg, s')"
  shows "lg = logger_ref nm \<and>
         map_option level (loggerDict s' lg) =
           Some (case loggerDict s lg of None \<Rightarrow> level (new_logger lg) | Some l \<Rightarrow> level l)"
  using assms
  by (auto simp: set_job_logger_def getLogger_def assign_setLevel_def FileHandler_init_def
        setFormatter_def addHandler_def Let_def
        split: option.splits if_splits)

theorem set_job_logger_level_witness:
  "set_job_logger ''job-42'' ''/tmp/job-42.log'' INFO None initial_state =
     (Inr ''job-42'', snd (set_job_logger ''job-42'' ''/tmp/job-42.log'' INFO None initial_state))
   \<and> map_option level
        (loggerDict (snd (set_job_logger ''job-42'' ''/tmp/job-42.log'' INFO None initial_state))
           ''job-42'') = Some 0
   \<and> map_option setLevel
        (loggerDict (snd (set_job_logger ''job-42'' ''/tmp/job-42.log'' INFO None initial_state))
           ''job-42'') = Some (Some 20)
   \<and> INFO = 20"
proof -
  have e: "set_job_logger ''job-42'' ''/tmp/job-42.log'' INFO None initial_state =
             (Inr ''job-42'',
              snd (set_job_logger ''job-42'' ''/tmp/job-42.log'' INFO None initial_state))"
    by (simp add: set_job_logger_def getLogger_def assign_setLevel_def FileHandler_init_def
          setFormatter_def addHandler_def logger_ref_def initial_state_def Let_def)
  have a: "map_option setLevel
        (loggerDict (snd (set_job_logger ''job-42'' ''/tmp/job-42.log'' INFO None initial_state))
           ''job-42'') = Some (Some 20)"
    by (simp add: set_job_logger_def getLogger_def assign_setLevel_def FileHandler_init_def
          setFormatter_def addHandler_def logger_ref_def initial_state_def new_logger_def
          INFO_def Let_def)
  from set_job_logger_level [OF e] e a show ?thesis
    by (simp add: initial_state_def new_logger_def NOTSET_def INFO_def)
qed

end
